theory Spec2Isabelle
  imports Main "HOL-Library.Word" "HOL-Library.Char_ord"
begin

text \<open>
  Provisioning of an Azure SQL database by the service broker, package \<^verbatim>\<open>sqldb\<close>:
  the validator of the provisioning parameters and the two provisioning steps
  \<^verbatim>\<open>preProvision\<close> and \<^verbatim>\<open>deployARMTemplate\<close> of \<^verbatim>\<open>provision.go\<close>, over the
  data of \<^verbatim>\<open>types.go\<close>. The functions are embedded as functions on an explicit
  world; an early \<^verbatim>\<open>return\<close> of the source is a branch of a conditional, the code
  that follows it is the other branch.
\<close>

section \<open>Go library functions called by the validator\<close>

text \<open>
  \<^verbatim>\<open>ValidateProvisioningParameters\<close> calls \<^verbatim>\<open>net.ParseIP\<close>, \<^verbatim>\<open>net.IP.To4\<close> and
  \<^verbatim>\<open>bytes.Compare\<close> of the Go standard library. They are embedded here after the
  textual parser of package \<^verbatim>\<open>net\<close> (files \<^verbatim>\<open>parse.go\<close> and \<^verbatim>\<open>ip.go\<close>) of the Go
  releases the package was written against (Go 1.9). Later releases differ on decimal
  fields with leading zeros, which they reject; they agree on the strings of the
  properties below: dotted-decimal text without leading zeros parses to its four octets
  and IPv6 text parses to sixteen bytes. A Go string is a sequence of bytes, which is
  what \<^typ>\<open>string\<close> is; a \<^verbatim>\<open>net.IP\<close> is a byte slice, with \<open>None\<close> for \<^verbatim>\<open>nil\<close>.
\<close>

type_synonym byte = "8 word"
type_synonym IP = "byte list option"

abbreviation IPv4len :: nat where "IPv4len \<equiv> 4"
abbreviation IPv6len :: nat where "IPv6len \<equiv> 16"

definition big :: nat where
  "big = 0xFFFFFF"

text \<open>
  \<^verbatim>\<open>dtoi(s)\<close>: decimal to integer; returns the number, the characters consumed and
  success. The loop variable \<open>i\<close> counts the characters read, the last argument is
  \<^verbatim>\<open>s[i:]\<close>.
\<close>

fun dtoi_loop :: "nat \<Rightarrow> nat \<Rightarrow> string \<Rightarrow> nat \<times> nat \<times> bool" where
  "dtoi_loop n i [] = (if i = 0 then (0, 0, False) else (n, i, True))"
| "dtoi_loop n i (c # s) =
     (if CHR ''0'' \<le> c \<and> c \<le> CHR ''9'' then
        (let n' = n * 10 + (of_char c - of_char CHR ''0'')
         in if n' \<ge> big then (big, i, False) else dtoi_loop n' (i + 1) s)
      else if i = 0 then (0, 0, False) else (n, i, True))"

definition dtoi :: "string \<Rightarrow> nat \<times> nat \<times> bool" where
  "dtoi s = dtoi_loop 0 0 s"

text \<open>\<^verbatim>\<open>xtoi(s)\<close>: hexadecimal to integer, same results.\<close>

fun xtoi_loop :: "nat \<Rightarrow> nat \<Rightarrow> string \<Rightarrow> nat \<times> nat \<times> bool" where
  "xtoi_loop n i [] = (if i = 0 then (0, i, False) else (n, i, True))"
| "xtoi_loop n i (c # s) =
     (if CHR ''0'' \<le> c \<and> c \<le> CHR ''9'' then
        (let n' = n * 16 + (of_char c - of_char CHR ''0'')
         in if n' \<ge> big then (0, i, False) else xtoi_loop n' (i + 1) s)
      else if CHR ''a'' \<le> c \<and> c \<le> CHR ''f'' then
        (let n' = n * 16 + (of_char c - of_char CHR ''a'') + 10
         in if n' \<ge> big then (0, i, False) else xtoi_loop n' (i + 1) s)
      else if CHR ''A'' \<le> c \<and> c \<le> CHR ''F'' then
        (let n' = n * 16 + (of_char c - of_char CHR ''A'') + 10
         in if n' \<ge> big then (0, i, False) else xtoi_loop n' (i + 1) s)
      else if i = 0 then (0, i, False) else (n, i, True))"

definition xtoi :: "string \<Rightarrow> nat \<times> nat \<times> bool" where
  "xtoi s = xtoi_loop 0 0 s"

text \<open>
  \<^verbatim>\<open>IPv4(a, b, c, d)\<close>: the 16-byte form of an IPv4 address, the prefix
  \<^verbatim>\<open>v4InV6Prefix\<close> followed by the four bytes.
\<close>

definition v4InV6Prefix :: "byte list" where
  "v4InV6Prefix = [0, 0, 0, 0, 0, 0, 0, 0, 0, 0, 0xff, 0xff]"

definition IPv4 :: "byte \<Rightarrow> byte \<Rightarrow> byte \<Rightarrow> byte \<Rightarrow> byte list" where
  "IPv4 a b c d = v4InV6Prefix @ [a, b, c, d]"

text \<open>
  \<^verbatim>\<open>parseIPv4(s)\<close>: four decimal fields separated by dots, each at most \<^verbatim>\<open>0xFF\<close>,
  and nothing after them.
\<close>

function parseIPv4_loop :: "nat \<Rightarrow> byte list \<Rightarrow> string \<Rightarrow> IP" where
  "parseIPv4_loop i p s =
     (if i < IPv4len then
        (if length s = 0 then None
         else if i > 0 \<and> hd s \<noteq> CHR ''.'' then None
         else
           (let s1 = (if i > 0 then tl s else s)
            in case dtoi s1 of (n, c, ok) \<Rightarrow>
              if \<not> ok \<or> n > 0xFF then None
              else parseIPv4_loop (i + 1) (p[i := of_nat n]) (drop c s1)))
      else if length s \<noteq> 0 then None
      else Some (IPv4 (p ! 0) (p ! 1) (p ! 2) (p ! 3)))"
  by pat_completeness auto
termination
  by (relation "measure (\<lambda>(i, p, s). IPv4len - i)") auto

definition parseIPv4 :: "string \<Rightarrow> IP" where
  "parseIPv4 s = parseIPv4_loop 0 (replicate IPv4len 0) s"

text \<open>
  \<^verbatim>\<open>parseIPv6(s)\<close>: the loop reads hexadecimal groups followed by colons, a trailing
  dotted IPv4 part, and at most one ellipsis \<^verbatim>\<open>::\<close>. The loop function returns
  \<open>None\<close> where the source returns \<^verbatim>\<open>nil\<close> from inside the loop, and the variables
  \<^verbatim>\<open>(ip, ellipsis, i, s)\<close> where the loop ends or breaks.
\<close>

function parseIPv6_loop ::
  "byte list \<Rightarrow> int \<Rightarrow> nat \<Rightarrow> string \<Rightarrow> (byte list \<times> int \<times> nat \<times> string) option" where
  "parseIPv6_loop ip ellipsis i s =
     (if \<not> i < IPv6len then Some (ip, ellipsis, i, s)
      else case xtoi s of (n, c, ok) \<Rightarrow>
        if \<not> ok \<or> n > 0xFFFF then None
        else if c < length s \<and> s ! c = CHR ''.'' then
          (if ellipsis < 0 \<and> i \<noteq> IPv6len - IPv4len then None
           else if i + IPv4len > IPv6len then None
           else case parseIPv4 s of
             None \<Rightarrow> None
           | Some ip4 \<Rightarrow>
               Some (ip[i := ip4 ! 12, i + 1 := ip4 ! 13, i + 2 := ip4 ! 14, i + 3 := ip4 ! 15],
                     ellipsis, i + IPv4len, ''''))
        else
          (let ip1 = ip[i := of_nat (drop_bit 8 n), i + 1 := of_nat n];
               i1 = i + 2;
               s1 = drop c s
           in if length s1 = 0 then Some (ip1, ellipsis, i1, s1)
              else if hd s1 \<noteq> CHR '':'' \<or> length s1 = 1 then None
              else
                (let s2 = tl s1
                 in if hd s2 = CHR '':'' then
                      (if ellipsis \<ge> 0 then None
                       else
                         (let s3 = tl s2
                          in if length s3 = 0 then Some (ip1, int i1, i1, s3)
                             else parseIPv6_loop ip1 (int i1) i1 s3))
                    else parseIPv6_loop ip1 ellipsis i1 s2)))"
  by pat_completeness auto
termination
  by (relation "measure (\<lambda>(ip, ellipsis, i, s). IPv6len - i)") auto

definition parseIPv6 :: "string \<Rightarrow> IP" where
  "parseIPv6 s0 =
     (let ip0 = replicate IPv6len (0 :: byte);
          leading = (length s0 \<ge> 2 \<and> s0 ! 0 = CHR '':'' \<and> s0 ! 1 = CHR '':'');
          ellipsis0 = (if leading then 0 else - 1);
          s = (if leading then drop 2 s0 else s0)
      in if leading \<and> length s = 0 then Some ip0
         else case parseIPv6_loop ip0 ellipsis0 0 s of
           None \<Rightarrow> None
         | Some (ip, ellipsis, i, s') \<Rightarrow>
             if length s' \<noteq> 0 then None
             else if i < IPv6len then
               (if ellipsis < 0 then None
                else
                  (let n = IPv6len - i;
                       e = nat ellipsis;
                       ip1 = fold (\<lambda>j ip. ip[j + n := ip ! j]) (rev [e..<i]) ip;
                       ip2 = fold (\<lambda>j ip. ip[j := 0]) (rev [e..<e + n]) ip1
                   in Some ip2))
             else if ellipsis \<ge> 0 then None
             else Some ip)"

text \<open>
  \<^verbatim>\<open>net.ParseIP(s)\<close>: the first dot or colon of \<open>s\<close> decides between the IPv4 and the
  IPv6 parser; a string with neither is not an address. The second argument of the scan
  is \<^verbatim>\<open>s[i:]\<close>.
\<close>

fun ParseIP_scan :: "string \<Rightarrow> string \<Rightarrow> IP" where
  "ParseIP_scan s [] = None"
| "ParseIP_scan s (c # r) =
     (if c = CHR ''.'' then parseIPv4 s
      else if c = CHR '':'' then parseIPv6 s
      else ParseIP_scan s r)"

definition net_ParseIP :: "string \<Rightarrow> IP" where
  "net_ParseIP s = ParseIP_scan s s"

text \<open>
  \<^verbatim>\<open>ip.To4()\<close>: the 4-byte form of an IPv4 address, \<^verbatim>\<open>nil\<close> for anything else. A
  \<^verbatim>\<open>nil\<close> receiver has length 0.
\<close>

definition isZeros :: "byte list \<Rightarrow> bool" where
  "isZeros p = list_all (\<lambda>b. b = 0) p"

definition IP_To4 :: "IP \<Rightarrow> IP" where
  "IP_To4 ip =
     (let p = (case ip of None \<Rightarrow> [] | Some p \<Rightarrow> p)
      in if length p = IPv4len then ip
         else if length p = IPv6len \<and> isZeros (take 10 p) \<and> p ! 10 = 0xff \<and> p ! 11 = 0xff
           then Some (drop 12 (take 16 p))
         else None)"

text \<open>
  \<^verbatim>\<open>bytes.Compare(a, b)\<close>: lexicographic comparison of two byte slices, with result
  0, -1 or +1. A \<^verbatim>\<open>nil\<close> argument is equivalent to an empty slice.
\<close>

fun Compare :: "byte list \<Rightarrow> byte list \<Rightarrow> int" where
  "Compare [] [] = 0"
| "Compare [] (y # ys) = - 1"
| "Compare (x # xs) [] = 1"
| "Compare (x # xs) (y # ys) =
     (if x < y then - 1 else if y < x then 1 else Compare xs ys)"

definition bytes_Compare :: "IP \<Rightarrow> IP \<Rightarrow> int" where
  "bytes_Compare a b =
     Compare (case a of None \<Rightarrow> [] | Some p \<Rightarrow> p) (case b of None \<Rightarrow> [] | Some p \<Rightarrow> p)"

declare parseIPv4_loop.simps [simp del]
declare parseIPv6_loop.simps [simp del]

section \<open>Data model (\<^verbatim>\<open>types.go\<close>)\<close>

record ProvisioningParameters =
  ServerName :: string
  FirewallIPStart :: string
  FirewallIPEnd :: string

record mssqlProvisioningContext =
  ARMDeploymentName :: string
  ServerName :: string
  IsNewServer :: bool
  AdministratorLogin :: string
  AdministratorLoginPassword :: string
  DatabaseName :: string
  FullyQualifiedDomainName :: string

record ServerConfig =
  ServerName :: string
  ResourceGroupName :: string
  Location :: string
  AdministratorLogin :: string
  AdministratorLoginPassword :: string

record Config =
  Servers :: "string \<rightharpoonup> ServerConfig"

text \<open>
  The service manager is the receiver of the three functions; of its fields the code
  reads \<^verbatim>\<open>mssqlConfig\<close> and calls \<^verbatim>\<open>armDeployer\<close> (an interface, see the
  collaborators below).
\<close>

record serviceManager =
  mssqlConfig :: Config

text \<open>
  Errors. \<^verbatim>\<open>service.NewValidationError(field, issue)\<close> builds a field-scoped
  validation error; \<^verbatim>\<open>errors.New\<close> and \<^verbatim>\<open>fmt.Errorf\<close> build a plain error that
  carries its message only.
\<close>

datatype error =
  ValidationError string string
| errorString string

text \<open>
  The generic parameter and context values of package \<^verbatim>\<open>service\<close> are interfaces.
  The type assertions of the code succeed on a pointer to the struct of this package
  and fail on a value of any other dynamic type. A pointer is an address into the
  store of the world below; it is never \<^verbatim>\<open>nil\<close>, since the broker obtains these
  objects from \<^verbatim>\<open>GetEmptyProvisioningParameters\<close> and
  \<^verbatim>\<open>GetEmptyProvisioningContext\<close> (\<^verbatim>\<open>types.go\<close>), which return the address of a
  fresh struct.
\<close>

type_synonym addr = nat

datatype service_ProvisioningParameters =
  ProvisioningParameters_ptr addr
| other_ProvisioningParameters

datatype service_ProvisioningContext =
  mssqlProvisioningContext_ptr addr
| other_ProvisioningContext

text \<open>
  A value of type \<^verbatim>\<open>interface{}\<close>: \<^verbatim>\<open>nil\<close>, a string, or a value of some other
  dynamic type. Reading a missing key of a \<^verbatim>\<open>map[string]interface{}\<close> gives \<^verbatim>\<open>nil\<close>.
\<close>

datatype any = any_nil | any_string string | any_other nat

definition index_any :: "(string \<rightharpoonup> any) \<Rightarrow> string \<Rightarrow> any" where
  "index_any m k = (case m k of None \<Rightarrow> any_nil | Some v \<Rightarrow> v)"

record service_PlanProperties =
  Extended :: "string \<rightharpoonup> any"

record service_Plan =
  GetProperties :: service_PlanProperties

record service_StandardProvisioningContext =
  ResourceGroup :: string
  Location :: string
  Tags :: "string \<rightharpoonup> string"

record service_Instance =
  ProvisioningParameters :: service_ProvisioningParameters
  ProvisioningContext :: service_ProvisioningContext
  StandardProvisioningContext :: service_StandardProvisioningContext

text \<open>The two ARM templates are constants of the package; only their identity matters.\<close>

datatype armTemplate = armTemplateNewServerBytes | armTemplateExistingServerBytes

text \<open>The arguments of one call of \<^verbatim>\<open>armDeployer.Deploy\<close>.\<close>

record Deploy_call =
  deploymentName :: string
  resourceGroupName :: string
  location :: string
  template :: armTemplate
  goTemplateParams :: "(string \<rightharpoonup> any) option"
  armTemplateParams :: "string \<rightharpoonup> any"
  tags :: "string \<rightharpoonup> string"

text \<open>
  The world: everything the three functions can read or write. The service manager
  and the request objects are only read by the code; the context objects are written
  through the pointer of the instance; \<open>drawn\<close> counts the random values generated
  so far and \<open>deployed\<close> lists the calls the deployment engine has received.
\<close>

record world =
  manager :: serviceManager
  requests :: "addr \<Rightarrow> ProvisioningParameters"
  contexts :: "addr \<Rightarrow> mssqlProvisioningContext"
  drawn :: nat
  deployed :: "Deploy_call list"

section \<open>The validator (\<^verbatim>\<open>provision.go\<close>)\<close>

text \<open>
  The result is the error returned, \<open>None\<close> for \<^verbatim>\<open>nil\<close>, and the world after the
  call. A nested test \<^verbatim>\<open>if a { if b { return e } }\<close> of the source is the branch
  \<open>if a \<and> b then e\<close> here: lines 27 to 37 are the first branch, lines 38 to 51 the
  second and the third. The raw string of lines 75 and 76 contains the line break and
  the four tabs of the source text.
\<close>

definition ValidateProvisioningParameters ::
  "service_ProvisioningParameters \<Rightarrow> world \<Rightarrow> error option \<times> world" where
  "ValidateProvisioningParameters provisioningParameters w =
     (case provisioningParameters of
        other_ProvisioningParameters \<Rightarrow>
          (Some (errorString
             (''error casting provisioningParameters as '' @ ''*mssql.ProvisioningParameters'')), w)
      | ProvisioningParameters_ptr a \<Rightarrow>
          (let pp = requests w a
           in if ProvisioningParameters.ServerName pp \<noteq> '''' \<and>
                 Servers (mssqlConfig (manager w)) (ProvisioningParameters.ServerName pp) = None
              then
                (Some (ValidationError ''serverName''
                   (''can't find serverName \"'' @ ProvisioningParameters.ServerName pp @
                    ''\" in Azure SQL Server configuration'')), w)
              else if (FirewallIPStart pp \<noteq> '''' \<or> FirewallIPEnd pp \<noteq> '''') \<and>
                      FirewallIPStart pp = ''''
              then
                (Some (ValidationError ''firewallStartIPAddress''
                   ''must be set when firewallEndIPAddress is set''), w)
              else if (FirewallIPStart pp \<noteq> '''' \<or> FirewallIPEnd pp \<noteq> '''') \<and>
                      FirewallIPEnd pp = ''''
              then
                (Some (ValidationError ''firewallEndIPAddress''
                   ''must be set when firewallStartIPAddress is set''), w)
              else
                (let startIP = net_ParseIP (FirewallIPStart pp)
                 in if FirewallIPStart pp \<noteq> '''' \<and> startIP = None then
                      (Some (ValidationError ''firewallStartIPAddress''
                         (''invalid value: \"'' @ FirewallIPStart pp @ ''\"'')), w)
                    else
                      (let endIP = net_ParseIP (FirewallIPEnd pp)
                       in if FirewallIPEnd pp \<noteq> '''' \<and> endIP = None then
                            (Some (ValidationError ''firewallEndIPAddress''
                               (''invalid value: \"'' @ FirewallIPEnd pp @ ''\"'')), w)
                          else
                            (let startBytes = IP_To4 startIP;
                                 endBytes = IP_To4 endIP
                             in if bytes_Compare startBytes endBytes > 0 then
                                  (Some (ValidationError ''firewallEndIPAddress''
                                     (''invalid value: \"'' @ FirewallIPEnd pp @
                                      ''\". must be '' @
                                      [CHR 0x0A, CHR 0x09, CHR 0x09, CHR 0x09, CHR 0x09] @
                                      ''greater than or equal to firewallStartIPAddress'')), w)
                                else (None, w))))))"

section \<open>Collaborators of the provisioning steps\<close>

text \<open>
  The steps call code that lies outside \<^verbatim>\<open>provision.go\<close>: the random generators
  \<^verbatim>\<open>uuid.NewV4().String()\<close>, \<^verbatim>\<open>generate.NewIdentifier()\<close> and
  \<^verbatim>\<open>generate.NewPassword()\<close>, the configuration lookups \<^verbatim>\<open>azure.GetConfig()\<close> and
  \<^verbatim>\<open>az.EnvironmentFromName\<close>, and the deployment engine \<^verbatim>\<open>armDeployer.Deploy\<close>.
  They are parameters of the model. A generator is a function of the number of values
  drawn before the call; the deployment engine is a function of the calls it has
  received before and of the call's arguments; a failing collaborator returns the
  message of its error, and an error that a step passes on unchanged is the plain error
  with that message.
\<close>

record azure_Config =
  Environment :: string

record az_Environment =
  SQLDatabaseDNSSuffix :: string

record collaborators =
  uuid_NewV4_String :: "nat \<Rightarrow> string"
  generate_NewIdentifier :: "nat \<Rightarrow> string"
  generate_NewPassword :: "nat \<Rightarrow> string"
  azure_GetConfig :: "string + azure_Config"
  az_EnvironmentFromName :: "string \<Rightarrow> string + az_Environment"
  armDeployer_Deploy :: "Deploy_call list \<Rightarrow> Deploy_call \<Rightarrow> string + (string \<rightharpoonup> any)"

text \<open>
  Modelled from the spec: the code of the generators (\<^verbatim>\<open>generate.NewIdentifier\<close>,
  \<^verbatim>\<open>generate.NewPassword\<close>, \<^verbatim>\<open>uuid.NewV4\<close>) is not in \<^verbatim>\<open>provision.go\<close> or
  \<^verbatim>\<open>types.go\<close>. The specification says of them that the generator "produces fresh
  random login names, passwords, and deployment/resource identifiers on demand", and
  that the generated values are non-empty.
\<close>

definition generates_nonempty :: "collaborators \<Rightarrow> bool" where
  "generates_nonempty X =
     (\<forall>n. uuid_NewV4_String X n \<noteq> '''' \<and> generate_NewIdentifier X n \<noteq> '''' \<and>
          generate_NewPassword X n \<noteq> '''')"

definition NewV4 :: "collaborators \<Rightarrow> world \<Rightarrow> string \<times> world" where
  "NewV4 X w = (uuid_NewV4_String X (drawn w), w\<lparr>drawn := drawn w + 1\<rparr>)"

definition NewIdentifier :: "collaborators \<Rightarrow> world \<Rightarrow> string \<times> world" where
  "NewIdentifier X w = (generate_NewIdentifier X (drawn w), w\<lparr>drawn := drawn w + 1\<rparr>)"

definition NewPassword :: "collaborators \<Rightarrow> world \<Rightarrow> string \<times> world" where
  "NewPassword X w = (generate_NewPassword X (drawn w), w\<lparr>drawn := drawn w + 1\<rparr>)"

definition Deploy ::
  "collaborators \<Rightarrow> Deploy_call \<Rightarrow> world \<Rightarrow> (string + (string \<rightharpoonup> any)) \<times> world" where
  "Deploy X call w = (armDeployer_Deploy X (deployed w) call, w\<lparr>deployed := deployed w @ [call]\<rparr>)"

text \<open>An assignment \<^verbatim>\<open>pc.field = v\<close> through the context pointer \<open>pc\<close>.\<close>

definition assign ::
  "addr \<Rightarrow> (mssqlProvisioningContext \<Rightarrow> mssqlProvisioningContext) \<Rightarrow> world \<Rightarrow> world" where
  "assign pc f w = w\<lparr>contexts := (contexts w)(pc := f (contexts w pc))\<rparr>"

section \<open>The provisioning steps (\<^verbatim>\<open>provision.go\<close>)\<close>

type_synonym step_result = "(error + service_ProvisioningContext) \<times> world"

definition preProvision ::
  "collaborators \<Rightarrow> service_Instance \<Rightarrow> service_Plan \<Rightarrow> world \<Rightarrow> step_result" where
  "preProvision X instance plan w =
     (case ProvisioningContext instance of
        other_ProvisioningContext \<Rightarrow>
          (Inl (errorString
             ''error casting instance.ProvisioningContext as *mssqlProvisioningContext''), w)
      | mssqlProvisioningContext_ptr pc \<Rightarrow>
      (case ProvisioningParameters instance of
        other_ProvisioningParameters \<Rightarrow>
          (Inl (errorString
             (''error casting instance.ProvisioningParameters as '' @
              ''*mssql.ProvisioningParameters'')), w)
      | ProvisioningParameters_ptr ppa \<Rightarrow>
          (let pp = requests w ppa
           in if ProvisioningParameters.ServerName pp = '''' then
                (let (v1, w1) = NewV4 X w;
                     w2 = assign pc (\<lambda>c. c\<lparr>ARMDeploymentName := v1\<rparr>) w1;
                     (v2, w3) = NewV4 X w2;
                     w4 = assign pc (\<lambda>c. c\<lparr>mssqlProvisioningContext.ServerName := v2\<rparr>) w3;
                     w5 = assign pc (\<lambda>c. c\<lparr>IsNewServer := True\<rparr>) w4;
                     (v3, w6) = NewIdentifier X w5;
                     w7 = assign pc (\<lambda>c. c\<lparr>mssqlProvisioningContext.AdministratorLogin := v3\<rparr>) w6;
                     (v4, w8) = NewPassword X w7;
                     w9 = assign pc
                       (\<lambda>c. c\<lparr>mssqlProvisioningContext.AdministratorLoginPassword := v4\<rparr>) w8;
                     (v5, w10) = NewIdentifier X w9;
                     w11 = assign pc (\<lambda>c. c\<lparr>DatabaseName := v5\<rparr>) w10
                 in (Inr (mssqlProvisioningContext_ptr pc), w11))
              else
                (let servers = Servers (mssqlConfig (manager w))
                 in case servers (ProvisioningParameters.ServerName pp) of
                   None \<Rightarrow>
                     (Inl (errorString
                        (''can't find serverName \"'' @ ProvisioningParameters.ServerName pp @
                         ''\" in Azure SQL Server configuration'')), w)
                 | Some server \<Rightarrow>
                     (let (v1, w1) = NewV4 X w;
                          w2 = assign pc (\<lambda>c. c\<lparr>ARMDeploymentName := v1\<rparr>) w1;
                          w3 = assign pc
                            (\<lambda>c. c\<lparr>mssqlProvisioningContext.ServerName :=
                                     ServerConfig.ServerName server\<rparr>) w2;
                          w4 = assign pc (\<lambda>c. c\<lparr>IsNewServer := False\<rparr>) w3;
                          w5 = assign pc
                            (\<lambda>c. c\<lparr>mssqlProvisioningContext.AdministratorLogin :=
                                     ServerConfig.AdministratorLogin server\<rparr>) w4;
                          w6 = assign pc
                            (\<lambda>c. c\<lparr>mssqlProvisioningContext.AdministratorLoginPassword :=
                                     ServerConfig.AdministratorLoginPassword server\<rparr>) w5;
                          (v2, w7) = NewIdentifier X w6;
                          w8 = assign pc (\<lambda>c. c\<lparr>DatabaseName := v2\<rparr>) w7
                      in case azure_GetConfig X of
                        Inl err \<Rightarrow> (Inl (errorString err), w8)
                      | Inr azureConfig \<Rightarrow>
                          (case az_EnvironmentFromName X (Environment azureConfig) of
                             Inl err \<Rightarrow> (Inl (errorString err), w8)
                           | Inr azureEnvironment \<Rightarrow>
                               (let sqlDatabaseDNSSuffix = SQLDatabaseDNSSuffix azureEnvironment;
                                    w9 = assign pc
                                      (\<lambda>c. c\<lparr>FullyQualifiedDomainName :=
                                         ServerConfig.ServerName server @ ''.'' @
                                         sqlDatabaseDNSSuffix\<rparr>) w8
                                in (Inr (mssqlProvisioningContext_ptr pc), w9))))))))"

definition buildARMTemplateParameters ::
  "service_Plan \<Rightarrow> mssqlProvisioningContext \<Rightarrow> ProvisioningParameters \<Rightarrow> (string \<rightharpoonup> any)" where
  "buildARMTemplateParameters plan provisioningContext provisioningParameters =
     (let p = [''serverName'' \<mapsto>
                 any_string (mssqlProvisioningContext.ServerName provisioningContext),
               ''administratorLogin'' \<mapsto>
                 any_string (mssqlProvisioningContext.AdministratorLogin provisioningContext),
               ''administratorLoginPassword'' \<mapsto>
                 any_string
                   (mssqlProvisioningContext.AdministratorLoginPassword provisioningContext),
               ''databaseName'' \<mapsto> any_string (DatabaseName provisioningContext),
               ''edition'' \<mapsto> index_any (Extended (GetProperties plan)) ''edition'',
               ''requestedServiceObjectiveName'' \<mapsto>
                 index_any (Extended (GetProperties plan)) ''requestedServiceObjectiveName'',
               ''maxSizeBytes'' \<mapsto> index_any (Extended (GetProperties plan)) ''maxSizeBytes''];
          p1 = (if FirewallIPStart provisioningParameters \<noteq> ''''
                then p(''firewallStartIpAddress'' \<mapsto>
                       any_string (FirewallIPStart provisioningParameters))
                else p);
          p2 = (if FirewallIPEnd provisioningParameters \<noteq> ''''
                then p1(''firewallEndIpAddress'' \<mapsto>
                        any_string (FirewallIPEnd provisioningParameters))
                else p1)
      in p2)"

definition deployARMTemplate ::
  "collaborators \<Rightarrow> service_Instance \<Rightarrow> service_Plan \<Rightarrow> world \<Rightarrow> step_result" where
  "deployARMTemplate X instance plan w =
     (case ProvisioningContext instance of
        other_ProvisioningContext \<Rightarrow>
          (Inl (errorString
             ''error casting instance.ProvisioningContext as *mssqlProvisioningContext''), w)
      | mssqlProvisioningContext_ptr pc \<Rightarrow>
      (case ProvisioningParameters instance of
        other_ProvisioningParameters \<Rightarrow>
          (Inl (errorString
             (''error casting instance.ProvisioningParameters as '' @
              ''*mssql.ProvisioningParameters'')), w)
      | ProvisioningParameters_ptr ppa \<Rightarrow>
          (let pp = requests w ppa
           in if IsNewServer (contexts w pc) then
                (let armTemplateParameters =
                       buildARMTemplateParameters plan (contexts w pc) pp;
                     (result, w1) = Deploy X
                       \<lparr>deploymentName = ARMDeploymentName (contexts w pc),
                        resourceGroupName = ResourceGroup (StandardProvisioningContext instance),
                        location = service_StandardProvisioningContext.Location
                          (StandardProvisioningContext instance),
                        template = armTemplateNewServerBytes,
                        goTemplateParams = None,
                        armTemplateParams = armTemplateParameters,
                        tags = Tags (StandardProvisioningContext instance)\<rparr> w
                 in case result of
                   Inl err \<Rightarrow>
                     (Inl (errorString (''error deploying ARM template: '' @ err)), w1)
                 | Inr outputs \<Rightarrow>
                     (case index_any outputs ''fullyQualifiedDomainName'' of
                        any_string fullyQualifiedDomainName \<Rightarrow>
                          (Inr (mssqlProvisioningContext_ptr pc),
                           assign pc
                             (\<lambda>c. c\<lparr>FullyQualifiedDomainName := fullyQualifiedDomainName\<rparr>) w1)
                      | _ \<Rightarrow>
                          (Inl (errorString
                             (''error retrieving fully qualified domain name from deployment: '' @
                              ''%!s(<nil>)'')), w1)))
              else
                (let servers = Servers (mssqlConfig (manager w))
                 in case servers (ProvisioningParameters.ServerName pp) of
                   None \<Rightarrow>
                     (Inl (errorString
                        (''can't find serverName \"'' @ ProvisioningParameters.ServerName pp @
                         ''\" in Azure SQL Server configuration'')), w)
                 | Some server \<Rightarrow>
                     (let (result, w1) = Deploy X
                            \<lparr>deploymentName = ARMDeploymentName (contexts w pc),
                             resourceGroupName = ResourceGroupName server,
                             location = ServerConfig.Location server,
                             template = armTemplateExistingServerBytes,
                             goTemplateParams = None,
                             armTemplateParams =
                               [''serverName'' \<mapsto>
                                  any_string (mssqlProvisioningContext.ServerName (contexts w pc)),
                                ''databaseName'' \<mapsto> any_string (DatabaseName (contexts w pc)),
                                ''edition'' \<mapsto>
                                  index_any (Extended (GetProperties plan)) ''edition'',
                                ''requestedServiceObjectiveName'' \<mapsto>
                                  index_any (Extended (GetProperties plan))
                                    ''requestedServiceObjectiveName'',
                                ''maxSizeBytes'' \<mapsto>
                                  index_any (Extended (GetProperties plan)) ''maxSizeBytes''],
                             tags = Tags (StandardProvisioningContext instance)\<rparr> w
                      in case result of
                        Inl err \<Rightarrow>
                          (Inl (errorString (''error deploying ARM template: '' @ err)), w1)
                      | Inr outputs \<Rightarrow> (Inr (mssqlProvisioningContext_ptr pc), w1))))))"

text \<open>
  \<^verbatim>\<open>GetEmptyProvisioningContext\<close> (\<^verbatim>\<open>types.go\<close>) returns a pointer to the zero value
  of the context struct; the pipeline hands it to the first step.
\<close>

definition GetEmptyProvisioningContext :: mssqlProvisioningContext where
  "GetEmptyProvisioningContext =
     \<lparr>ARMDeploymentName = '''', ServerName = '''', IsNewServer = False,
      AdministratorLogin = '''', AdministratorLoginPassword = '''', DatabaseName = '''',
      FullyQualifiedDomainName = ''''\<rparr>"

section \<open>Notions of the specification\<close>

text \<open>
  A dotted-decimal IPv4 string is the text \<open>a.b.c.d\<close> of four octets, each written
  as a decimal numeral. Its 4-byte big-endian representation is the list of the
  octets, most significant first, and \<open>lex_le\<close> is the lexicographic order on such
  lists.
\<close>

definition digit :: "nat \<Rightarrow> char" where
  "digit d = ''0123456789'' ! d"

fun decimal :: "nat \<Rightarrow> string" where
  "decimal n =
     (if n < 10 then [digit n]
      else decimal (n div 10) @ [digit (n mod 10)])"

declare decimal.simps [simp del]

definition dotted_decimal :: "nat \<Rightarrow> nat \<Rightarrow> nat \<Rightarrow> nat \<Rightarrow> string" where
  "dotted_decimal a b c d =
     decimal a @ ''.'' @ decimal b @ ''.'' @ decimal c @ ''.'' @ decimal d"

fun lex_le :: "nat list \<Rightarrow> nat list \<Rightarrow> bool" where
  "lex_le [] ys = True"
| "lex_le (x # xs) [] = False"
| "lex_le (x # xs) (y # ys) = (x < y \<or> (x = y \<and> lex_le xs ys))"

definition is_digit :: "char \<Rightarrow> bool" where
  "is_digit c = (CHR ''0'' \<le> c \<and> c \<le> CHR ''9'')"

text \<open>The field-scoped errors of the validator name one of the three request fields.\<close>

fun field_scoped :: "error \<Rightarrow> bool" where
  "field_scoped (ValidationError field issue) =
     (field \<in> {''serverName'', ''firewallStartIPAddress'', ''firewallEndIPAddress''} \<and>
      issue \<noteq> '''')"
| "field_scoped (errorString msg) = False"

fun is_errorString :: "error \<Rightarrow> bool" where
  "is_errorString (errorString msg) = True"
| "is_errorString (ValidationError field issue) = False"

text \<open>
  An internal failure of a step is a plain error (\<^verbatim>\<open>errors.New\<close>, \<^verbatim>\<open>fmt.Errorf\<close> or
  the error of a collaborator), as opposed to a validation error.
\<close>

fun Internal_failure :: "error + 'a \<Rightarrow> bool" where
  "Internal_failure (Inl e) = is_errorString e"
| "Internal_failure (Inr x) = False"

text \<open>
  The world after the six assignments of the existing-server scenario of
  \<^verbatim>\<open>preProvision\<close> (lines 129 to 134), before the environment is resolved.
\<close>

definition existing_server_assigned ::
  "collaborators \<Rightarrow> ServerConfig \<Rightarrow> addr \<Rightarrow> world \<Rightarrow> world" where
  "existing_server_assigned X server pc w =
     w\<lparr>contexts := (contexts w)(pc := (contexts w pc)
          \<lparr>ARMDeploymentName := uuid_NewV4_String X (drawn w),
           mssqlProvisioningContext.ServerName := ServerConfig.ServerName server,
           IsNewServer := False,
           mssqlProvisioningContext.AdministratorLogin := ServerConfig.AdministratorLogin server,
           mssqlProvisioningContext.AdministratorLoginPassword :=
             ServerConfig.AdministratorLoginPassword server,
           DatabaseName := generate_NewIdentifier X (drawn w + 1)\<rparr>),
       drawn := drawn w + 2\<rparr>"

text \<open>
  The arguments with which the new-server scenario of \<^verbatim>\<open>deployARMTemplate\<close> calls
  the deployment engine (lines 204 to 212).
\<close>

definition new_server_call ::
  "service_Instance \<Rightarrow> service_Plan \<Rightarrow> addr \<Rightarrow> addr \<Rightarrow> world \<Rightarrow> Deploy_call" where
  "new_server_call instance plan pc ppa w =
     \<lparr>deploymentName = ARMDeploymentName (contexts w pc),
      resourceGroupName = ResourceGroup (StandardProvisioningContext instance),
      location = service_StandardProvisioningContext.Location
        (StandardProvisioningContext instance),
      template = armTemplateNewServerBytes,
      goTemplateParams = None,
      armTemplateParams = buildARMTemplateParameters plan (contexts w pc) (requests w ppa),
      tags = Tags (StandardProvisioningContext instance)\<rparr>"

section \<open>A concrete broker, for evaluating the model\<close>

definition prod_1 :: ServerConfig where
  "prod_1 = \<lparr>ServerName = ''prod-1'', ResourceGroupName = ''prod-rg'', Location = ''westus'',
             AdministratorLogin = ''sqladmin'', AdministratorLoginPassword = ''S3cret!''\<rparr>"

definition a_request :: "string \<Rightarrow> string \<Rightarrow> string \<Rightarrow> ProvisioningParameters" where
  "a_request server lo hi =
     \<lparr>ProvisioningParameters.ServerName = server,
      FirewallIPStart = lo, FirewallIPEnd = hi\<rparr>"

definition a_world :: "ProvisioningParameters \<Rightarrow> world" where
  "a_world pp =
     \<lparr>manager = \<lparr>mssqlConfig = \<lparr>Servers = [''prod-1'' \<mapsto> prod_1]\<rparr>\<rparr>,
      requests = (\<lambda>_. pp),
      contexts = (\<lambda>_. GetEmptyProvisioningContext),
      drawn = 0,
      deployed = []\<rparr>"

definition an_instance :: service_Instance where
  "an_instance =
     \<lparr>ProvisioningParameters = ProvisioningParameters_ptr 0,
      ProvisioningContext = mssqlProvisioningContext_ptr 0,
      StandardProvisioningContext =
        \<lparr>ResourceGroup = ''request-rg'', Location = ''eastus'', Tags = Map.empty\<rparr>\<rparr>"

definition a_plan :: service_Plan where
  "a_plan =
     \<lparr>GetProperties = \<lparr>Extended =
        [''edition'' \<mapsto> any_string ''Basic'',
         ''requestedServiceObjectiveName'' \<mapsto> any_string ''Basic'',
         ''maxSizeBytes'' \<mapsto> any_string ''2147483648'']\<rparr>\<rparr>"

definition some_collaborators :: collaborators where
  "some_collaborators =
     \<lparr>uuid_NewV4_String = (\<lambda>n. ''uuid-'' @ decimal n),
      generate_NewIdentifier = (\<lambda>n. ''id'' @ decimal n),
      generate_NewPassword = (\<lambda>n. ''pw'' @ decimal n),
      azure_GetConfig = Inr \<lparr>Environment = ''AzurePublicCloud''\<rparr>,
      az_EnvironmentFromName =
        (\<lambda>name. if name = ''AzurePublicCloud''
               then Inr \<lparr>SQLDatabaseDNSSuffix = ''database.windows.net''\<rparr>
               else Inl ''unknown environment''),
      armDeployer_Deploy =
        (\<lambda>before call. Inr [''fullyQualifiedDomainName'' \<mapsto>
                               any_string ''new.database.windows.net''])\<rparr>"

text \<open>The world in which the first step has resolved a request of the concrete broker.\<close>

definition resolved_world :: "ProvisioningParameters \<Rightarrow> world" where
  "resolved_world pp = snd (preProvision some_collaborators an_instance a_plan (a_world pp))"

section \<open>Lemmas about the library functions\<close>

lemma replicate_IPv4len: "replicate IPv4len x = [x, x, x, x]"
  by (simp add: numeral_eq_Suc)

lemma replicate_IPv6len:
  "replicate IPv6len x = [x, x, x, x, x, x, x, x, x, x, x, x, x, x, x, x]"
  by (simp add: numeral_eq_Suc)

lemma list_update_Cons_numeral: "(x # xs)[numeral v := y] = x # xs[numeral v - 1 := y]"
  by (simp add: numeral_eq_Suc)

lemmas parser_simps =
  net_ParseIP_def parseIPv4_def parseIPv6_def parseIPv4_loop.simps parseIPv6_loop.simps
  dtoi_def xtoi_def big_def IPv4_def v4InV6Prefix_def
  replicate_IPv4len replicate_IPv6len list_update_Cons_numeral upt_conv_Cons

lemma of_char_digit: "d < 10 \<Longrightarrow> (of_char (digit d) :: nat) = 48 + d"
proof -
  assume "d < 10"
  then have "d \<in> {0, 1, 2, 3, 4, 5, 6, 7, 8, 9}" by auto
  then show ?thesis by (auto simp: digit_def)
qed

lemma is_digit_digit: "d < 10 \<Longrightarrow> is_digit (digit d)"
  by (simp add: is_digit_def less_eq_char_def of_char_digit)

lemma not_digit_dot: "\<not> is_digit CHR ''.''"
  by (simp add: is_digit_def less_eq_char_def)

lemma decimal_nonempty: "decimal n \<noteq> []"
  by (subst decimal.simps) simp

lemma decimal_digits: "list_all is_digit (decimal n)"
proof (induction n rule: decimal.induct)
  case (1 n)
  show ?case
  proof (cases "n < 10")
    case True
    then show ?thesis by (subst decimal.simps) (simp add: is_digit_digit)
  next
    case False
    with 1 show ?thesis by (subst decimal.simps) (simp add: is_digit_digit)
  qed
qed

lemma dotted_decimal_nonempty: "dotted_decimal a b c d \<noteq> []"
  by (simp add: dotted_decimal_def decimal_nonempty)

text \<open>Reading one digit, and reading a whole decimal numeral, with \<^verbatim>\<open>dtoi\<close>.\<close>

lemma dtoi_loop_digit:
  "d < 10 \<Longrightarrow> n * 10 + d < big \<Longrightarrow>
   dtoi_loop n i (digit d # r) = dtoi_loop (n * 10 + d) (Suc i) r"
  using is_digit_digit [of d] by (simp add: is_digit_def Let_def of_char_digit)

lemma dtoi_loop_decimal:
  "n < big \<Longrightarrow> dtoi_loop 0 0 (decimal n @ r) = dtoi_loop n (length (decimal n)) r"
proof (induction n arbitrary: r rule: decimal.induct)
  case (1 n)
  show ?case
  proof (cases "n < 10")
    case True
    then have "decimal n = [digit n]" by (subst decimal.simps) simp
    with True "1.prems" show ?thesis using dtoi_loop_digit [of n 0 0 r] by simp
  next
    case False
    then have dec: "decimal n = decimal (n div 10) @ [digit (n mod 10)]"
      by (subst decimal.simps) simp
    have small: "n div 10 < big" using "1.prems" by simp
    have "dtoi_loop 0 0 (decimal n @ r) =
          dtoi_loop (n div 10) (length (decimal (n div 10))) (digit (n mod 10) # r)"
      using "1.IH" [OF False small] dec by simp
    also have "\<dots> = dtoi_loop (n div 10 * 10 + n mod 10) (Suc (length (decimal (n div 10)))) r"
      using "1.prems" by (intro dtoi_loop_digit) simp_all
    finally show ?thesis using dec by simp
  qed
qed

lemma dtoi_loop_stop:
  "0 < i \<Longrightarrow> r = [] \<or> \<not> is_digit (hd r) \<Longrightarrow> dtoi_loop n i r = (n, i, True)"
  by (cases r) (auto simp: is_digit_def)

lemma dtoi_decimal:
  assumes "n < big" and "r = [] \<or> \<not> is_digit (hd r)"
  shows "dtoi (decimal n @ r) = (n, length (decimal n), True)"
  using assms decimal_nonempty [of n]
  by (simp add: dtoi_def dtoi_loop_decimal dtoi_loop_stop)

text \<open>The four rounds of the loop of \<^verbatim>\<open>parseIPv4\<close> on a dotted-decimal string.\<close>

lemma parseIPv4_loop_first:
  assumes "n < 256" and "r = [] \<or> \<not> is_digit (hd r)"
  shows "parseIPv4_loop 0 p (decimal n @ r) = parseIPv4_loop (Suc 0) (p[0 := of_nat n]) r"
  using assms(1) dtoi_decimal [OF _ assms(2), of n] decimal_nonempty [of n]
  by (subst parseIPv4_loop.simps) (simp add: big_def)

lemma parseIPv4_loop_next:
  assumes "0 < i" and "i < 4" and "n < 256" and "r = [] \<or> \<not> is_digit (hd r)"
  shows "parseIPv4_loop i p (CHR ''.'' # decimal n @ r) =
         parseIPv4_loop (Suc i) (p[i := of_nat n]) r"
  using assms(1-3) dtoi_decimal [OF _ assms(4), of n]
  by (subst parseIPv4_loop.simps) (simp add: big_def)

lemma parseIPv4_loop_last:
  "parseIPv4_loop (Suc (Suc (Suc (Suc 0)))) p [] = Some (IPv4 (p ! 0) (p ! 1) (p ! 2) (p ! 3))"
  by (subst parseIPv4_loop.simps) simp

lemma parseIPv4_dotted_decimal:
  assumes "a < 256" "b < 256" "c < 256" "d < 256"
  shows "parseIPv4 (dotted_decimal a b c d) =
         Some (IPv4 (of_nat a) (of_nat b) (of_nat c) (of_nat d))"
proof -
  let ?p0 = "[0, 0, 0, 0] :: byte list"
  have "parseIPv4_loop 0 ?p0
          (decimal a @ (CHR ''.'' # decimal b @ (CHR ''.'' # decimal c @
             (CHR ''.'' # decimal d @ [])))) =
        parseIPv4_loop (Suc 0) (?p0[0 := of_nat a])
          (CHR ''.'' # decimal b @ (CHR ''.'' # decimal c @ (CHR ''.'' # decimal d @ [])))"
    using assms(1) by (intro parseIPv4_loop_first) (simp_all add: not_digit_dot)
  also have "\<dots> = parseIPv4_loop (Suc (Suc 0)) (?p0[0 := of_nat a, Suc 0 := of_nat b])
          (CHR ''.'' # decimal c @ (CHR ''.'' # decimal d @ []))"
    using assms(2) by (intro parseIPv4_loop_next) (simp_all add: not_digit_dot)
  also have "\<dots> = parseIPv4_loop (Suc (Suc (Suc 0)))
          (?p0[0 := of_nat a, Suc 0 := of_nat b, Suc (Suc 0) := of_nat c])
          (CHR ''.'' # decimal d @ [])"
    using assms(3) by (intro parseIPv4_loop_next) (simp_all add: not_digit_dot)
  also have "\<dots> = parseIPv4_loop (Suc (Suc (Suc (Suc 0))))
          (?p0[0 := of_nat a, Suc 0 := of_nat b, Suc (Suc 0) := of_nat c,
               Suc (Suc (Suc 0)) := of_nat d]) []"
    using assms(4) by (intro parseIPv4_loop_next) simp_all
  also have "\<dots> = Some (IPv4 (of_nat a) (of_nat b) (of_nat c) (of_nat d))"
    by (simp add: parseIPv4_loop_last)
  finally show ?thesis
    by (simp add: parseIPv4_def dotted_decimal_def numeral_eq_Suc)
qed

lemma ParseIP_scan_digits:
  "list_all is_digit ds \<Longrightarrow> ParseIP_scan s (ds @ CHR ''.'' # r) = parseIPv4 s"
  by (induction ds) (auto simp: is_digit_def less_eq_char_def)

lemma net_ParseIP_dotted_decimal:
  assumes "a < 256" "b < 256" "c < 256" "d < 256"
  shows "net_ParseIP (dotted_decimal a b c d) =
         Some (IPv4 (of_nat a) (of_nat b) (of_nat c) (of_nat d))"
proof -
  have "net_ParseIP (dotted_decimal a b c d) = parseIPv4 (dotted_decimal a b c d)"
    unfolding net_ParseIP_def
    using ParseIP_scan_digits [OF decimal_digits, of "dotted_decimal a b c d" a
        "decimal b @ ''.'' @ decimal c @ ''.'' @ decimal d"]
    by (simp add: dotted_decimal_def)
  then show ?thesis using parseIPv4_dotted_decimal [OF assms] by simp
qed

lemma IP_To4_IPv4: "IP_To4 (Some (IPv4 a b c d)) = Some [a, b, c, d]"
  by (simp add: IP_To4_def IPv4_def v4InV6Prefix_def isZeros_def)

lemma IP_To4_None: "IP_To4 None = None"
  by (simp add: IP_To4_def)

lemma Compare_lex_le: "(Compare xs ys > 0) = (\<not> lex_le (map unat xs) (map unat ys))"
  by (induction xs ys rule: Compare.induct) (auto simp: word_less_nat_alt)

lemma unat_octet: "n < 256 \<Longrightarrow> unat (of_nat n :: byte) = n"
  by (simp add: unat_of_nat)

lemma decimal_numeral:
  "decimal (numeral k) =
     (if numeral k < (10 :: nat) then [digit (numeral k)]
      else decimal (numeral k div 10) @ [digit (numeral k mod 10)])"
  by (rule decimal.simps)

lemma decimal_0: "decimal 0 = ''0''"
  by (subst decimal.simps) (simp add: digit_def)

lemma decimal_1: "decimal (Suc 0) = ''1''"
  by (subst decimal.simps) (simp add: digit_def)

lemmas decimal_eval = decimal_numeral decimal_0 decimal_1 digit_def dotted_decimal_def

lemma decimal_small: "n < 10 \<Longrightarrow> decimal n = [digit n]"
  by (subst decimal.simps) simp

text \<open>Reading the concrete broker.\<close>

lemma a_request_simps:
  "ProvisioningParameters.ServerName (a_request server lo hi) = server"
  "FirewallIPStart (a_request server lo hi) = lo"
  "FirewallIPEnd (a_request server lo hi) = hi"
  by (simp_all add: a_request_def)

lemma an_instance_simps:
  "ProvisioningContext an_instance = mssqlProvisioningContext_ptr 0"
  "ProvisioningParameters an_instance = ProvisioningParameters_ptr 0"
  "ResourceGroup (StandardProvisioningContext an_instance) = ''request-rg''"
  "service_StandardProvisioningContext.Location (StandardProvisioningContext an_instance) =
     ''eastus''"
  by (simp_all add: an_instance_def)

lemma a_world_simps:
  "requests (a_world pp) a = pp"
  "contexts (a_world pp) a = GetEmptyProvisioningContext"
  "drawn (a_world pp) = 0"
  "deployed (a_world pp) = []"
  "Servers (mssqlConfig (manager (a_world pp))) = [''prod-1'' \<mapsto> prod_1]"
  by (simp_all add: a_world_def)

lemmas step_simps =
  Let_def NewV4_def NewIdentifier_def NewPassword_def Deploy_def assign_def

section \<open>Properties of the validator\<close>

lemma ParseIP_IPv6_loopback:
  "net_ParseIP ''::1'' = Some [0, 0, 0, 0, 0, 0, 0, 0, 0, 0, 0, 0, 0, 0, 0, 1]"
  by (simp add: parser_simps)

lemma To4_IPv6_loopback: "IP_To4 (net_ParseIP ''::1'') = None"
  by (simp add: ParseIP_IPv6_loopback IP_To4_def isZeros_def)

lemma ParseIP_1_2_3_4: "net_ParseIP ''1.2.3.4'' = Some (IPv4 1 2 3 4)"
  using net_ParseIP_dotted_decimal [of 1 2 3 4] by (simp add: decimal_eval)

text \<open>
  Text that \<^verbatim>\<open>net.ParseIP\<close> does not accept at all is rejected on its own field, once
  the rules on the server name and on the missing counterpart have passed.
\<close>

lemma unparsable_start_rejected:
  assumes "ProvisioningParameters.ServerName (requests w p) = '''' \<or>
           Servers (mssqlConfig (manager w))
             (ProvisioningParameters.ServerName (requests w p)) \<noteq> None"
    and "FirewallIPStart (requests w p) \<noteq> ''''" and "FirewallIPEnd (requests w p) \<noteq> ''''"
    and "net_ParseIP (FirewallIPStart (requests w p)) = None"
  shows "fst (ValidateProvisioningParameters (ProvisioningParameters_ptr p) w) =
         Some (ValidationError ''firewallStartIPAddress''
           (''invalid value: \"'' @ FirewallIPStart (requests w p) @ ''\"''))"
proof -
  have srv: "\<not> (ProvisioningParameters.ServerName (requests w p) \<noteq> [] \<and>
      Servers (mssqlConfig (manager w))
        (ProvisioningParameters.ServerName (requests w p)) = None)"
    using assms(1) by auto
  show ?thesis
    unfolding ValidateProvisioningParameters_def
    using assms(2-4) by (simp add: Let_def srv)
qed

lemma unparsable_end_rejected:
  assumes "ProvisioningParameters.ServerName (requests w p) = '''' \<or>
           Servers (mssqlConfig (manager w))
             (ProvisioningParameters.ServerName (requests w p)) \<noteq> None"
    and "FirewallIPStart (requests w p) \<noteq> ''''" and "FirewallIPEnd (requests w p) \<noteq> ''''"
    and "net_ParseIP (FirewallIPStart (requests w p)) \<noteq> None"
    and "net_ParseIP (FirewallIPEnd (requests w p)) = None"
  shows "fst (ValidateProvisioningParameters (ProvisioningParameters_ptr p) w) =
         Some (ValidationError ''firewallEndIPAddress''
           (''invalid value: \"'' @ FirewallIPEnd (requests w p) @ ''\"''))"
proof -
  have srv: "\<not> (ProvisioningParameters.ServerName (requests w p) \<noteq> [] \<and>
      Servers (mssqlConfig (manager w))
        (ProvisioningParameters.ServerName (requests w p)) = None)"
    using assms(1) by auto
  show ?thesis
    unfolding ValidateProvisioningParameters_def
    using assms(2-5) by (simp add: Let_def srv)
qed

text \<open>
  Claim C1: a non-empty firewall bound that is not a valid IPv4 address, an IPv6
  address for example, is rejected with a validation error on its field before the
  ordering comparison, so that the comparison only sees two IPv4 values.

  The code does not do this for IPv6 text. For the request with no server name, start
  \<^verbatim>\<open>::1\<close> and end \<^verbatim>\<open>1.2.3.4\<close>: \<^verbatim>\<open>net.ParseIP\<close> accepts the start (the result
  is not \<^verbatim>\<open>nil\<close>, so the check after it passes), \<^verbatim>\<open>To4\<close> of it is \<^verbatim>\<open>nil\<close>,
  \<^verbatim>\<open>bytes.Compare\<close> of \<^verbatim>\<open>nil\<close> and the four bytes of the end is -1, and the
  validator returns no error.
\<close>

theorem IPv6_start_passes_validation:
  assumes "requests w p = a_request '''' ''::1'' ''1.2.3.4''"
  shows "net_ParseIP (FirewallIPStart (requests w p)) \<noteq> None \<and>
         IP_To4 (net_ParseIP (FirewallIPStart (requests w p))) = None \<and>
         fst (ValidateProvisioningParameters (ProvisioningParameters_ptr p) w) = None"
  using assms To4_IPv6_loopback
  by (simp add: ValidateProvisioningParameters_def a_request_def ParseIP_IPv6_loopback
      ParseIP_1_2_3_4 IP_To4_IPv4 bytes_Compare_def)

theorem IPv6_start_passes_validation_witness:
  "requests (a_world (a_request '''' ''::1'' ''1.2.3.4'')) 0 =
     a_request '''' ''::1'' ''1.2.3.4'' \<and>
   fst (ValidateProvisioningParameters (ProvisioningParameters_ptr 0)
      (a_world (a_request '''' ''::1'' ''1.2.3.4''))) = None"
  using IPv6_start_passes_validation [of "a_world (a_request '''' ''::1'' ''1.2.3.4'')" 0]
  by (simp add: a_world_def)

text \<open>
  The validator on two dotted-decimal strings: both parse, \<^verbatim>\<open>To4\<close> gives their four
  bytes, and the result is decided by \<^verbatim>\<open>bytes.Compare\<close>.
\<close>

lemma validate_dotted_decimal:
  assumes "a < 256" "b < 256" "c < 256" "d < 256"
    and "a' < 256" "b' < 256" "c' < 256" "d' < 256"
    and "ProvisioningParameters.ServerName (requests w p) = '''' \<or>
         Servers (mssqlConfig (manager w))
           (ProvisioningParameters.ServerName (requests w p)) \<noteq> None"
    and "FirewallIPStart (requests w p) = dotted_decimal a b c d"
    and "FirewallIPEnd (requests w p) = dotted_decimal a' b' c' d'"
  shows "fst (ValidateProvisioningParameters (ProvisioningParameters_ptr p) w) =
         (if lex_le [a, b, c, d] [a', b', c', d'] then None
          else Some (ValidationError ''firewallEndIPAddress''
            (''invalid value: \"'' @ FirewallIPEnd (requests w p) @ ''\". must be '' @
             [CHR 0x0A, CHR 0x09, CHR 0x09, CHR 0x09, CHR 0x09] @
             ''greater than or equal to firewallStartIPAddress'')))"
proof -
  have cmp: "(bytes_Compare (Some [of_nat a, of_nat b, of_nat c, of_nat d])
                (Some [of_nat a', of_nat b', of_nat c', of_nat d']) > 0) =
             (\<not> lex_le [a, b, c, d] [a', b', c', d'])"
  proof -
    have "map unat [of_nat a, of_nat b, of_nat c, of_nat d :: byte] = [a, b, c, d]"
      and "map unat [of_nat a', of_nat b', of_nat c', of_nat d' :: byte] = [a', b', c', d']"
      using assms(1-8) by (simp_all add: unat_octet)
    then show ?thesis
      by (simp add: bytes_Compare_def Compare_lex_le del: Compare.simps lex_le.simps)
  qed
  have ps: "net_ParseIP (FirewallIPStart (requests w p)) =
            Some (IPv4 (of_nat a) (of_nat b) (of_nat c) (of_nat d))"
    using assms(10) net_ParseIP_dotted_decimal [OF assms(1-4)] by simp
  have pe: "net_ParseIP (FirewallIPEnd (requests w p)) =
            Some (IPv4 (of_nat a') (of_nat b') (of_nat c') (of_nat d'))"
    using assms(11) net_ParseIP_dotted_decimal [OF assms(5-8)] by simp
  have ne: "FirewallIPStart (requests w p) \<noteq> []" "FirewallIPEnd (requests w p) \<noteq> []"
    using assms(10,11) by (simp_all add: dotted_decimal_nonempty)
  have srv: "\<not> (ProvisioningParameters.ServerName (requests w p) \<noteq> [] \<and>
      Servers (mssqlConfig (manager w))
        (ProvisioningParameters.ServerName (requests w p)) = None)"
    using assms(9) by auto
  show ?thesis
    unfolding ValidateProvisioningParameters_def
    by (simp add: Let_def ps pe ne srv IP_To4_IPv4 cmp del: lex_le.simps)
qed

text \<open>
  Claim C3: for every pair of dotted-decimal IPv4 strings given as the firewall bounds
  of a request whose server name is empty or a key of the registry, the validator
  succeeds if and only if the four bytes of the start are lexicographically less than
  or equal to those of the end; when it fails, the error is on the field
  \<^verbatim>\<open>firewallEndIPAddress\<close>.
\<close>

theorem ValidateProvisioningParameters_ordering:
  assumes "a < 256" "b < 256" "c < 256" "d < 256"
    and "a' < 256" "b' < 256" "c' < 256" "d' < 256"
    and "ProvisioningParameters.ServerName (requests w p) = '''' \<or>
         Servers (mssqlConfig (manager w))
           (ProvisioningParameters.ServerName (requests w p)) \<noteq> None"
    and "FirewallIPStart (requests w p) = dotted_decimal a b c d"
    and "FirewallIPEnd (requests w p) = dotted_decimal a' b' c' d'"
  shows "(fst (ValidateProvisioningParameters (ProvisioningParameters_ptr p) w) = None) =
           lex_le [a, b, c, d] [a', b', c', d'] \<and>
         (fst (ValidateProvisioningParameters (ProvisioningParameters_ptr p) w) \<noteq> None \<longrightarrow>
            (\<exists>issue. fst (ValidateProvisioningParameters (ProvisioningParameters_ptr p) w) =
               Some (ValidationError ''firewallEndIPAddress'' issue)))"
  by (simp add: validate_dotted_decimal [OF assms] del: lex_le.simps)

theorem ValidateProvisioningParameters_ordering_witness:
  "fst (ValidateProvisioningParameters (ProvisioningParameters_ptr 0)
      (a_world (a_request '''' ''10.0.0.1'' ''10.0.0.255''))) = None \<and>
   lex_le [10, 0, 0, 1] [10, 0, 0, 255] \<and>
   (\<exists>issue. fst (ValidateProvisioningParameters (ProvisioningParameters_ptr 0)
      (a_world (a_request ''prod-1'' ''10.0.1.0'' ''10.0.0.1''))) =
        Some (ValidationError ''firewallEndIPAddress'' issue)) \<and>
   \<not> lex_le [10, 0, 1, 0] [10, 0, 0, 1]"
proof -
  have s1: "dotted_decimal 10 0 0 (Suc 0) = ''10.0.0.1''"
    and s2: "dotted_decimal 10 0 0 255 = ''10.0.0.255''"
    and s3: "dotted_decimal 10 0 (Suc 0) 0 = ''10.0.1.0''"
    by (simp_all add: decimal_eval)
  have ok: "fst (ValidateProvisioningParameters (ProvisioningParameters_ptr 0)
      (a_world (a_request '''' ''10.0.0.1'' ''10.0.0.255''))) = None"
    using ValidateProvisioningParameters_ordering [of 10 0 0 1 10 0 0 255
        "a_world (a_request '''' ''10.0.0.1'' ''10.0.0.255'')" 0]
    by (simp add: s1 s2 a_world_def a_request_def)
  have bad: "\<exists>issue. fst (ValidateProvisioningParameters (ProvisioningParameters_ptr 0)
      (a_world (a_request ''prod-1'' ''10.0.1.0'' ''10.0.0.1''))) =
        Some (ValidationError ''firewallEndIPAddress'' issue)"
    using ValidateProvisioningParameters_ordering [of 10 0 1 0 10 0 0 1
        "a_world (a_request ''prod-1'' ''10.0.1.0'' ''10.0.0.1'')" 0]
    by (simp add: s1 s3 a_world_def a_request_def)
  show ?thesis using ok bad by simp
qed

lemma validate_world: "snd (ValidateProvisioningParameters p w) = w"
  by (simp add: ValidateProvisioningParameters_def Let_def
      split: service_ProvisioningParameters.split)

lemma validate_shape:
  "case fst (ValidateProvisioningParameters (ProvisioningParameters_ptr a) w) of
     None \<Rightarrow> True | Some e \<Rightarrow> field_scoped e"
  by (simp add: ValidateProvisioningParameters_def Let_def)

text \<open>
  Claim C4: on every request (a value that passes the type assertion of the entry
  point) the validator returns no error or a field-scoped validation error, which
  names one of the three request fields and carries a non-empty message; and it has no
  side effect: the world after the call, with the request objects and the registry in
  it, is the world before the call, on every input.
\<close>

theorem ValidateProvisioningParameters_contract:
  "snd (ValidateProvisioningParameters q w) = w \<and>
   (case fst (ValidateProvisioningParameters (ProvisioningParameters_ptr p) w) of
      None \<Rightarrow> True
    | Some e \<Rightarrow> field_scoped e)"
  using validate_world [of q w] validate_shape [of p w] by simp

theorem ValidateProvisioningParameters_contract_witness:
  "snd (ValidateProvisioningParameters (ProvisioningParameters_ptr 0)
      (a_world (a_request ''prod-2'' '''' ''''))) = a_world (a_request ''prod-2'' '''' '''') \<and>
   fst (ValidateProvisioningParameters (ProvisioningParameters_ptr 0)
      (a_world (a_request ''prod-2'' '''' ''''))) =
     Some (ValidationError ''serverName''
       ''can't find serverName \"prod-2\" in Azure SQL Server configuration'') \<and>
   field_scoped (ValidationError ''serverName''
       ''can't find serverName \"prod-2\" in Azure SQL Server configuration'')"
proof -
  have e: "fst (ValidateProvisioningParameters (ProvisioningParameters_ptr 0)
      (a_world (a_request ''prod-2'' '''' ''''))) =
     Some (ValidationError ''serverName''
       ''can't find serverName \"prod-2\" in Azure SQL Server configuration'')"
    by (simp add: ValidateProvisioningParameters_def a_world_def a_request_def)
  show ?thesis
    using ValidateProvisioningParameters_contract
      [of "ProvisioningParameters_ptr 0" "a_world (a_request ''prod-2'' '''' '''')" 0]
    by (simp add: e)
qed

section \<open>Properties of the parameter builder\<close>

lemma dom_buildARMTemplateParameters:
  "dom (buildARMTemplateParameters plan pc pp) =
     {''serverName'', ''administratorLogin'', ''administratorLoginPassword'', ''databaseName'',
      ''edition'', ''requestedServiceObjectiveName'', ''maxSizeBytes''} \<union>
     (if FirewallIPStart pp \<noteq> '''' then {''firewallStartIpAddress''} else {}) \<union>
     (if FirewallIPEnd pp \<noteq> '''' then {''firewallEndIpAddress''} else {})"
  by (auto simp: buildARMTemplateParameters_def Let_def)

text \<open>
  Claim C2 as stated, that the parameter map of the end-to-end request (no server
  name, start \<^verbatim>\<open>1.2.3.4\<close>, end \<^verbatim>\<open>1.2.3.10\<close>) built from the resolved new-server
  context has exactly 7 keys, does not hold: the map literal of the code has seven keys
  already and the two firewall keys are added to it.
\<close>

theorem parameter_map_of_scenario_not_7_keys:
  "card (dom (buildARMTemplateParameters a_plan
      (contexts (resolved_world (a_request '''' ''1.2.3.4'' ''1.2.3.10'')) 0)
      (a_request '''' ''1.2.3.4'' ''1.2.3.10''))) \<noteq> 7"
  by (simp add: dom_buildARMTemplateParameters a_request_simps)

text \<open>
  Claim C2, amended: for the request with empty server name, firewall start
  \<^verbatim>\<open>1.2.3.4\<close> and firewall end \<^verbatim>\<open>1.2.3.10\<close>, the parameter map built by
  \<^verbatim>\<open>buildARMTemplateParameters\<close> from any plan and context, the resolved new-server
  context among them, contains exactly 9 keys: the seven keys that are always included
  and both firewall address keys.
\<close>

theorem parameter_map_of_scenario_9_keys:
  "dom (buildARMTemplateParameters plan pc (a_request '''' ''1.2.3.4'' ''1.2.3.10'')) =
     {''serverName'', ''administratorLogin'', ''administratorLoginPassword'', ''databaseName'',
      ''edition'', ''requestedServiceObjectiveName'', ''maxSizeBytes'',
      ''firewallStartIpAddress'', ''firewallEndIpAddress''} \<and>
   card (dom (buildARMTemplateParameters plan pc (a_request '''' ''1.2.3.4'' ''1.2.3.10''))) = 9"
  by (simp add: dom_buildARMTemplateParameters a_request_simps) auto

theorem parameter_map_of_scenario_9_keys_witness:
  "card (dom (buildARMTemplateParameters a_plan
      (contexts (resolved_world (a_request '''' ''1.2.3.4'' ''1.2.3.10'')) 0)
      (a_request '''' ''1.2.3.4'' ''1.2.3.10''))) = 9"
  using parameter_map_of_scenario_9_keys [of a_plan
      "contexts (resolved_world (a_request '''' ''1.2.3.4'' ''1.2.3.10'')) 0"]
  by simp

text \<open>
  Claim C7: for every plan, context and request, the parameter map of
  \<^verbatim>\<open>buildARMTemplateParameters\<close> has the key \<^verbatim>\<open>firewallStartIpAddress\<close> if and
  only if the firewall start of the request is not empty, and then maps it to that very
  string; likewise for \<^verbatim>\<open>firewallEndIpAddress\<close> and the firewall end.
\<close>

theorem buildARMTemplateParameters_firewall_keys:
  "(''firewallStartIpAddress'' \<in> dom (buildARMTemplateParameters plan pc pp)) =
     (FirewallIPStart pp \<noteq> '''') \<and>
   buildARMTemplateParameters plan pc pp ''firewallStartIpAddress'' =
     (if FirewallIPStart pp = '''' then None else Some (any_string (FirewallIPStart pp))) \<and>
   (''firewallEndIpAddress'' \<in> dom (buildARMTemplateParameters plan pc pp)) =
     (FirewallIPEnd pp \<noteq> '''') \<and>
   buildARMTemplateParameters plan pc pp ''firewallEndIpAddress'' =
     (if FirewallIPEnd pp = '''' then None else Some (any_string (FirewallIPEnd pp)))"
  by (simp add: buildARMTemplateParameters_def Let_def dom_def)

theorem buildARMTemplateParameters_firewall_keys_witness:
  "buildARMTemplateParameters a_plan GetEmptyProvisioningContext
     (a_request '''' ''1.2.3.4'' '''') ''firewallStartIpAddress'' =
     Some (any_string ''1.2.3.4'') \<and>
   buildARMTemplateParameters a_plan GetEmptyProvisioningContext
     (a_request '''' ''1.2.3.4'' '''') ''firewallEndIpAddress'' = None"
  using buildARMTemplateParameters_firewall_keys [of a_plan GetEmptyProvisioningContext
      "a_request '''' ''1.2.3.4'' ''''"]
  by (simp add: a_request_simps)

section \<open>Properties of the first step\<close>

text \<open>The new-server scenario of \<^verbatim>\<open>preProvision\<close>.\<close>

lemma preProvision_new_server_world:
  assumes "ProvisioningContext instance = mssqlProvisioningContext_ptr pc"
    and "ProvisioningParameters instance = ProvisioningParameters_ptr ppa"
    and "ProvisioningParameters.ServerName (requests w ppa) = []"
  shows "fst (preProvision X instance plan w) = Inr (mssqlProvisioningContext_ptr pc)"
    and "contexts (snd (preProvision X instance plan w)) pc =
      (contexts w pc)
        \<lparr>ARMDeploymentName := uuid_NewV4_String X (drawn w),
         mssqlProvisioningContext.ServerName := uuid_NewV4_String X (drawn w + 1),
         IsNewServer := True,
         mssqlProvisioningContext.AdministratorLogin := generate_NewIdentifier X (drawn w + 2),
         mssqlProvisioningContext.AdministratorLoginPassword :=
           generate_NewPassword X (drawn w + 3),
         DatabaseName := generate_NewIdentifier X (drawn w + 4)\<rparr>"
    and "drawn (snd (preProvision X instance plan w)) = drawn w + 5"
  using assms by (simp_all add: preProvision_def step_simps numeral_eq_Suc)

text \<open>The existing-server scenario of \<^verbatim>\<open>preProvision\<close>.\<close>

lemma preProvision_existing_server_world:
  assumes "ProvisioningContext instance = mssqlProvisioningContext_ptr pc"
    and "ProvisioningParameters instance = ProvisioningParameters_ptr ppa"
    and "ProvisioningParameters.ServerName (requests w ppa) \<noteq> ''''"
    and "Servers (mssqlConfig (manager w))
           (ProvisioningParameters.ServerName (requests w ppa)) = Some server"
  shows "preProvision X instance plan w =
    (case azure_GetConfig X of
       Inl err \<Rightarrow> (Inl (errorString err), existing_server_assigned X server pc w)
     | Inr azureConfig \<Rightarrow>
         (case az_EnvironmentFromName X (Environment azureConfig) of
            Inl err \<Rightarrow> (Inl (errorString err), existing_server_assigned X server pc w)
          | Inr azureEnvironment \<Rightarrow>
              (Inr (mssqlProvisioningContext_ptr pc),
               assign pc (\<lambda>c. c\<lparr>FullyQualifiedDomainName :=
                  ServerConfig.ServerName server @ ''.'' @
                  SQLDatabaseDNSSuffix azureEnvironment\<rparr>)
                 (existing_server_assigned X server pc w))))"
  using assms
  by (simp add: preProvision_def step_simps existing_server_assigned_def numeral_eq_Suc
      split: sum.split)

text \<open>
  Claim C5: for every request whose server name names an entry of the registry (a
  request that has a server name: the empty name selects the new-server scenario), and
  with the environment resolved, \<^verbatim>\<open>preProvision\<close> returns the context with the
  administrator login and password of the registry entry, the new-server flag false, and
  the domain name made of the entry's server name, a dot and the DNS suffix of the
  environment. No credentials are generated: the step draws two random values, the
  deployment name and the database name.
\<close>

theorem preProvision_existing_server:
  assumes "ProvisioningContext instance = mssqlProvisioningContext_ptr pc"
    and "ProvisioningParameters instance = ProvisioningParameters_ptr ppa"
    and "ProvisioningParameters.ServerName (requests w ppa) \<noteq> ''''"
    and "Servers (mssqlConfig (manager w))
           (ProvisioningParameters.ServerName (requests w ppa)) = Some server"
    and "azure_GetConfig X = Inr azureConfig"
    and "az_EnvironmentFromName X (Environment azureConfig) = Inr azureEnvironment"
  shows "fst (preProvision X instance plan w) = Inr (mssqlProvisioningContext_ptr pc) \<and>
    mssqlProvisioningContext.AdministratorLogin
        (contexts (snd (preProvision X instance plan w)) pc) =
      ServerConfig.AdministratorLogin server \<and>
    mssqlProvisioningContext.AdministratorLoginPassword
        (contexts (snd (preProvision X instance plan w)) pc) =
      ServerConfig.AdministratorLoginPassword server \<and>
    \<not> IsNewServer (contexts (snd (preProvision X instance plan w)) pc) \<and>
    FullyQualifiedDomainName (contexts (snd (preProvision X instance plan w)) pc) =
      ServerConfig.ServerName server @ ''.'' @ SQLDatabaseDNSSuffix azureEnvironment \<and>
    drawn (snd (preProvision X instance plan w)) = drawn w + 2"
  using assms(5,6)
  by (simp add: preProvision_existing_server_world [OF assms(1-4)]
      existing_server_assigned_def assign_def)

theorem preProvision_existing_server_witness:
  "fst (preProvision some_collaborators an_instance a_plan
      (a_world (a_request ''prod-1'' '''' ''''))) = Inr (mssqlProvisioningContext_ptr 0) \<and>
   mssqlProvisioningContext.AdministratorLogin
     (contexts (snd (preProvision some_collaborators an_instance a_plan
        (a_world (a_request ''prod-1'' '''' '''')))) 0) = ''sqladmin'' \<and>
   mssqlProvisioningContext.AdministratorLoginPassword
     (contexts (snd (preProvision some_collaborators an_instance a_plan
        (a_world (a_request ''prod-1'' '''' '''')))) 0) = ''S3cret!'' \<and>
   \<not> IsNewServer
     (contexts (snd (preProvision some_collaborators an_instance a_plan
        (a_world (a_request ''prod-1'' '''' '''')))) 0) \<and>
   FullyQualifiedDomainName
     (contexts (snd (preProvision some_collaborators an_instance a_plan
        (a_world (a_request ''prod-1'' '''' '''')))) 0) = ''prod-1.database.windows.net''"
  using preProvision_existing_server [of an_instance 0 0
      "a_world (a_request ''prod-1'' '''' '''')" prod_1 some_collaborators
      "\<lparr>Environment = ''AzurePublicCloud''\<rparr>"
      "\<lparr>SQLDatabaseDNSSuffix = ''database.windows.net''\<rparr>" a_plan]
  by (simp add: an_instance_simps a_world_simps a_request_simps some_collaborators_def
      prod_1_def)

text \<open>
  Claim C6: for every request whose server name is the empty string,
  \<^verbatim>\<open>preProvision\<close> succeeds and returns the context with the new-server flag true,
  with the deployment name, server name, administrator login, administrator password and
  database name each freshly generated (each is the value of its generator at a draw of
  its own) and not empty, generators that return non-empty strings given, and with the
  domain name left as it was: empty, when the step starts from the empty context that
  the pipeline hands to it.
\<close>

theorem preProvision_new_server:
  assumes "ProvisioningContext instance = mssqlProvisioningContext_ptr pc"
    and "ProvisioningParameters instance = ProvisioningParameters_ptr ppa"
    and "ProvisioningParameters.ServerName (requests w ppa) = ''''"
    and "generates_nonempty X"
  shows "fst (preProvision X instance plan w) = Inr (mssqlProvisioningContext_ptr pc) \<and>
    contexts (snd (preProvision X instance plan w)) pc =
      \<lparr>ARMDeploymentName = uuid_NewV4_String X (drawn w),
       ServerName = uuid_NewV4_String X (drawn w + 1),
       IsNewServer = True,
       AdministratorLogin = generate_NewIdentifier X (drawn w + 2),
       AdministratorLoginPassword = generate_NewPassword X (drawn w + 3),
       DatabaseName = generate_NewIdentifier X (drawn w + 4),
       FullyQualifiedDomainName = FullyQualifiedDomainName (contexts w pc)\<rparr> \<and>
    IsNewServer (contexts (snd (preProvision X instance plan w)) pc) \<and>
    ARMDeploymentName (contexts (snd (preProvision X instance plan w)) pc) \<noteq> '''' \<and>
    mssqlProvisioningContext.ServerName
      (contexts (snd (preProvision X instance plan w)) pc) \<noteq> '''' \<and>
    mssqlProvisioningContext.AdministratorLogin
      (contexts (snd (preProvision X instance plan w)) pc) \<noteq> '''' \<and>
    mssqlProvisioningContext.AdministratorLoginPassword
      (contexts (snd (preProvision X instance plan w)) pc) \<noteq> '''' \<and>
    DatabaseName (contexts (snd (preProvision X instance plan w)) pc) \<noteq> '''' \<and>
    (contexts w pc = GetEmptyProvisioningContext \<longrightarrow>
       FullyQualifiedDomainName (contexts (snd (preProvision X instance plan w)) pc) = '''')"
  using assms(4)
  by (simp add: preProvision_new_server_world [OF assms(1-3)] GetEmptyProvisioningContext_def
      generates_nonempty_def)

theorem preProvision_new_server_witness:
  "generates_nonempty some_collaborators \<and>
   fst (preProvision some_collaborators an_instance a_plan
      (a_world (a_request '''' ''1.2.3.4'' ''1.2.3.10''))) = Inr (mssqlProvisioningContext_ptr 0) \<and>
   contexts (snd (preProvision some_collaborators an_instance a_plan
      (a_world (a_request '''' ''1.2.3.4'' ''1.2.3.10'')))) 0 =
     \<lparr>ARMDeploymentName = ''uuid-0'', ServerName = ''uuid-1'', IsNewServer = True,
      AdministratorLogin = ''id2'', AdministratorLoginPassword = ''pw3'',
      DatabaseName = ''id4'', FullyQualifiedDomainName = ''''\<rparr>"
proof -
  have gen: "generates_nonempty some_collaborators"
    by (simp add: generates_nonempty_def some_collaborators_def)
  show ?thesis
    using gen preProvision_new_server [of an_instance 0 0
        "a_world (a_request '''' ''1.2.3.4'' ''1.2.3.10'')" some_collaborators a_plan]
    by (simp add: an_instance_simps a_world_simps a_request_simps some_collaborators_def
        GetEmptyProvisioningContext_def decimal_small digit_def)
qed

text \<open>
  Claim C10: in the existing-server scenario \<^verbatim>\<open>preProvision\<close> writes the deployment
  name, server name, new-server flag, administrator login, administrator password and
  database name into the context before it resolves the environment. When the
  resolution fails (\<^verbatim>\<open>azure.GetConfig\<close> or \<^verbatim>\<open>az.EnvironmentFromName\<close> returns an
  error) the step returns that error, and the context object it was given holds the six
  values written, the credentials of the registry entry among them: it is not the
  context the step was given, whenever that one held another administrator login.
\<close>

theorem preProvision_not_atomic:
  assumes "ProvisioningContext instance = mssqlProvisioningContext_ptr pc"
    and "ProvisioningParameters instance = ProvisioningParameters_ptr ppa"
    and "ProvisioningParameters.ServerName (requests w ppa) \<noteq> ''''"
    and "Servers (mssqlConfig (manager w))
           (ProvisioningParameters.ServerName (requests w ppa)) = Some server"
    and "azure_GetConfig X = Inl err \<or>
         (\<exists>azureConfig. azure_GetConfig X = Inr azureConfig \<and>
            az_EnvironmentFromName X (Environment azureConfig) = Inl err)"
  shows "fst (preProvision X instance plan w) = Inl (errorString err) \<and>
    contexts (snd (preProvision X instance plan w)) pc =
      (contexts w pc)
        \<lparr>ARMDeploymentName := uuid_NewV4_String X (drawn w),
         mssqlProvisioningContext.ServerName := ServerConfig.ServerName server,
         IsNewServer := False,
         mssqlProvisioningContext.AdministratorLogin := ServerConfig.AdministratorLogin server,
         mssqlProvisioningContext.AdministratorLoginPassword :=
           ServerConfig.AdministratorLoginPassword server,
         DatabaseName := generate_NewIdentifier X (drawn w + 1)\<rparr> \<and>
    (mssqlProvisioningContext.AdministratorLogin (contexts w pc) \<noteq>
       ServerConfig.AdministratorLogin server \<longrightarrow>
     contexts (snd (preProvision X instance plan w)) pc \<noteq> contexts w pc)"
proof -
  let ?after = "contexts (snd (preProvision X instance plan w)) pc"
  have result: "preProvision X instance plan w =
      (Inl (errorString err), existing_server_assigned X server pc w)"
    using assms(5) by (auto simp: preProvision_existing_server_world [OF assms(1-4)])
  have written: "?after =
      (contexts w pc)
        \<lparr>ARMDeploymentName := uuid_NewV4_String X (drawn w),
         mssqlProvisioningContext.ServerName := ServerConfig.ServerName server,
         IsNewServer := False,
         mssqlProvisioningContext.AdministratorLogin := ServerConfig.AdministratorLogin server,
         mssqlProvisioningContext.AdministratorLoginPassword :=
           ServerConfig.AdministratorLoginPassword server,
         DatabaseName := generate_NewIdentifier X (drawn w + 1)\<rparr>"
    by (simp add: result existing_server_assigned_def)
  have "?after \<noteq> contexts w pc"
    if "mssqlProvisioningContext.AdministratorLogin (contexts w pc) \<noteq>
        ServerConfig.AdministratorLogin server"
  proof
    assume "?after = contexts w pc"
    then have "mssqlProvisioningContext.AdministratorLogin ?after =
        mssqlProvisioningContext.AdministratorLogin (contexts w pc)"
      by simp
    with that show False by (simp add: written)
  qed
  with result written show ?thesis by simp
qed

theorem preProvision_not_atomic_witness:
  "fst (preProvision (some_collaborators\<lparr>azure_GetConfig := Inl ''no configuration''\<rparr>)
      an_instance a_plan (a_world (a_request ''prod-1'' '''' ''''))) =
     Inl (errorString ''no configuration'') \<and>
   contexts (snd (preProvision (some_collaborators\<lparr>azure_GetConfig := Inl ''no configuration''\<rparr>)
      an_instance a_plan (a_world (a_request ''prod-1'' '''' '''')))) 0 =
     \<lparr>ARMDeploymentName = ''uuid-0'', ServerName = ''prod-1'', IsNewServer = False,
      AdministratorLogin = ''sqladmin'', AdministratorLoginPassword = ''S3cret!'',
      DatabaseName = ''id1'', FullyQualifiedDomainName = ''''\<rparr> \<and>
   contexts (snd (preProvision (some_collaborators\<lparr>azure_GetConfig := Inl ''no configuration''\<rparr>)
      an_instance a_plan (a_world (a_request ''prod-1'' '''' '''')))) 0 \<noteq>
     contexts (a_world (a_request ''prod-1'' '''' '''')) 0"
  using preProvision_not_atomic [of an_instance 0 0
      "a_world (a_request ''prod-1'' '''' '''')" prod_1
      "some_collaborators\<lparr>azure_GetConfig := Inl ''no configuration''\<rparr>"
      "''no configuration''" a_plan]
  by (simp add: an_instance_simps a_world_simps a_request_simps some_collaborators_def
      prod_1_def GetEmptyProvisioningContext_def decimal_small digit_def)

section \<open>Properties of the second step\<close>

text \<open>The requests of the concrete broker after the first step.\<close>

lemma resolved_world_existing:
  "contexts (resolved_world (a_request ''prod-1'' lo hi)) 0 =
     \<lparr>ARMDeploymentName = ''uuid-0'', ServerName = ''prod-1'', IsNewServer = False,
      AdministratorLogin = ''sqladmin'', AdministratorLoginPassword = ''S3cret!'',
      DatabaseName = ''id1'', FullyQualifiedDomainName = ''prod-1.database.windows.net''\<rparr>"
  "requests (resolved_world (a_request ''prod-1'' lo hi)) a = a_request ''prod-1'' lo hi"
  "Servers (mssqlConfig (manager (resolved_world (a_request ''prod-1'' lo hi)))) =
     [''prod-1'' \<mapsto> prod_1]"
  "deployed (resolved_world (a_request ''prod-1'' lo hi)) = []"
  by (simp_all add: resolved_world_def preProvision_def step_simps an_instance_simps
      a_world_simps a_request_def some_collaborators_def prod_1_def
      GetEmptyProvisioningContext_def decimal_small digit_def)

lemma resolved_world_new:
  "contexts (resolved_world (a_request '''' lo hi)) 0 =
     \<lparr>ARMDeploymentName = ''uuid-0'', ServerName = ''uuid-1'', IsNewServer = True,
      AdministratorLogin = ''id2'', AdministratorLoginPassword = ''pw3'',
      DatabaseName = ''id4'', FullyQualifiedDomainName = ''''\<rparr>"
  "requests (resolved_world (a_request '''' lo hi)) a = a_request '''' lo hi"
  "deployed (resolved_world (a_request '''' lo hi)) = []"
  by (simp_all add: resolved_world_def preProvision_def step_simps an_instance_simps
      a_world_simps a_request_def some_collaborators_def
      GetEmptyProvisioningContext_def decimal_small digit_def)

text \<open>The existing-server scenario of \<^verbatim>\<open>deployARMTemplate\<close>.\<close>

lemma deployARMTemplate_existing_server_world:
  assumes "ProvisioningContext instance = mssqlProvisioningContext_ptr pc"
    and "ProvisioningParameters instance = ProvisioningParameters_ptr ppa"
    and "\<not> IsNewServer (contexts w pc)"
    and "Servers (mssqlConfig (manager w))
           (ProvisioningParameters.ServerName (requests w ppa)) = Some server"
  shows "deployed (snd (deployARMTemplate X instance plan w)) =
      deployed w @
      [\<lparr>deploymentName = ARMDeploymentName (contexts w pc),
        resourceGroupName = ResourceGroupName server,
        location = ServerConfig.Location server,
        template = armTemplateExistingServerBytes,
        goTemplateParams = None,
        armTemplateParams =
          [''serverName'' \<mapsto> any_string (mssqlProvisioningContext.ServerName (contexts w pc)),
           ''databaseName'' \<mapsto> any_string (DatabaseName (contexts w pc)),
           ''edition'' \<mapsto> index_any (Extended (GetProperties plan)) ''edition'',
           ''requestedServiceObjectiveName'' \<mapsto>
             index_any (Extended (GetProperties plan)) ''requestedServiceObjectiveName'',
           ''maxSizeBytes'' \<mapsto> index_any (Extended (GetProperties plan)) ''maxSizeBytes''],
        tags = Tags (StandardProvisioningContext instance)\<rparr>]"
    and "contexts (snd (deployARMTemplate X instance plan w)) = contexts w"
  using assms by (simp_all add: deployARMTemplate_def step_simps split: sum.split)

text \<open>
  Claim C8: in every existing-server provisioning attempt (the new-server flag of the
  context is false and the server name of the request is in the registry)
  \<^verbatim>\<open>deployARMTemplate\<close> calls the deployment engine exactly once, with the
  existing-server template, with the resource group and location of the registry entry,
  and with a parameter map of exactly the five keys server name, database name, edition,
  requested service objective name and max size bytes, the firewall keys not among them;
  and the domain name of the context is not modified.
\<close>

theorem deployARMTemplate_existing_server:
  assumes "ProvisioningContext instance = mssqlProvisioningContext_ptr pc"
    and "ProvisioningParameters instance = ProvisioningParameters_ptr ppa"
    and "\<not> IsNewServer (contexts w pc)"
    and "Servers (mssqlConfig (manager w))
           (ProvisioningParameters.ServerName (requests w ppa)) = Some server"
  shows "length (deployed (snd (deployARMTemplate X instance plan w))) =
      length (deployed w) + 1 \<and>
    butlast (deployed (snd (deployARMTemplate X instance plan w))) = deployed w \<and>
    template (last (deployed (snd (deployARMTemplate X instance plan w)))) =
      armTemplateExistingServerBytes \<and>
    resourceGroupName (last (deployed (snd (deployARMTemplate X instance plan w)))) =
      ResourceGroupName server \<and>
    location (last (deployed (snd (deployARMTemplate X instance plan w)))) =
      ServerConfig.Location server \<and>
    dom (armTemplateParams (last (deployed (snd (deployARMTemplate X instance plan w))))) =
      {''serverName'', ''databaseName'', ''edition'', ''requestedServiceObjectiveName'',
       ''maxSizeBytes''} \<and>
    card (dom (armTemplateParams
      (last (deployed (snd (deployARMTemplate X instance plan w)))))) = 5 \<and>
    ''firewallStartIpAddress'' \<notin>
      dom (armTemplateParams (last (deployed (snd (deployARMTemplate X instance plan w))))) \<and>
    ''firewallEndIpAddress'' \<notin>
      dom (armTemplateParams (last (deployed (snd (deployARMTemplate X instance plan w))))) \<and>
    FullyQualifiedDomainName (contexts (snd (deployARMTemplate X instance plan w)) pc) =
      FullyQualifiedDomainName (contexts w pc)"
  by (simp add: deployARMTemplate_existing_server_world [OF assms]) auto

theorem deployARMTemplate_existing_server_witness:
  "deployed (snd (deployARMTemplate some_collaborators an_instance a_plan
      (resolved_world (a_request ''prod-1'' ''1.2.3.4'' ''1.2.3.10'')))) =
     [\<lparr>deploymentName = ''uuid-0'', resourceGroupName = ''prod-rg'', location = ''westus'',
       template = armTemplateExistingServerBytes, goTemplateParams = None,
       armTemplateParams =
         [''serverName'' \<mapsto> any_string ''prod-1'',
          ''databaseName'' \<mapsto> any_string ''id1'',
          ''edition'' \<mapsto> any_string ''Basic'',
          ''requestedServiceObjectiveName'' \<mapsto> any_string ''Basic'',
          ''maxSizeBytes'' \<mapsto> any_string ''2147483648''],
       tags = Map.empty\<rparr>] \<and>
   FullyQualifiedDomainName (contexts (snd (deployARMTemplate some_collaborators an_instance
      a_plan (resolved_world (a_request ''prod-1'' ''1.2.3.4'' ''1.2.3.10'')))) 0) =
     ''prod-1.database.windows.net''"
proof -
  let ?w = "resolved_world (a_request ''prod-1'' ''1.2.3.4'' ''1.2.3.10'')"
  have call: "deployed (snd (deployARMTemplate some_collaborators an_instance a_plan ?w)) =
     [\<lparr>deploymentName = ''uuid-0'', resourceGroupName = ''prod-rg'', location = ''westus'',
       template = armTemplateExistingServerBytes, goTemplateParams = None,
       armTemplateParams =
         [''serverName'' \<mapsto> any_string ''prod-1'',
          ''databaseName'' \<mapsto> any_string ''id1'',
          ''edition'' \<mapsto> any_string ''Basic'',
          ''requestedServiceObjectiveName'' \<mapsto> any_string ''Basic'',
          ''maxSizeBytes'' \<mapsto> any_string ''2147483648''],
       tags = Map.empty\<rparr>]"
    by (simp add: deployARMTemplate_def step_simps an_instance_simps resolved_world_existing
        a_request_simps prod_1_def a_plan_def index_any_def an_instance_def
        some_collaborators_def)
  show ?thesis
    using deployARMTemplate_existing_server [of an_instance 0 0 ?w prod_1 some_collaborators
        a_plan]
    by (simp add: call an_instance_simps resolved_world_existing a_request_simps)
qed

text \<open>The new-server scenario of \<^verbatim>\<open>deployARMTemplate\<close>.\<close>

lemma deployARMTemplate_new_server_world:
  assumes "ProvisioningContext instance = mssqlProvisioningContext_ptr pc"
    and "ProvisioningParameters instance = ProvisioningParameters_ptr ppa"
    and "IsNewServer (contexts w pc)"
  shows "deployARMTemplate X instance plan w =
    (let w1 = w\<lparr>deployed := deployed w @ [new_server_call instance plan pc ppa w]\<rparr>
     in case armDeployer_Deploy X (deployed w) (new_server_call instance plan pc ppa w) of
       Inl err \<Rightarrow> (Inl (errorString (''error deploying ARM template: '' @ err)), w1)
     | Inr outputs \<Rightarrow>
         (case index_any outputs ''fullyQualifiedDomainName'' of
            any_string fullyQualifiedDomainName \<Rightarrow>
              (Inr (mssqlProvisioningContext_ptr pc),
               assign pc (\<lambda>c. c\<lparr>FullyQualifiedDomainName := fullyQualifiedDomainName\<rparr>) w1)
          | _ \<Rightarrow>
              (Inl (errorString
                 (''error retrieving fully qualified domain name from deployment: '' @
                  ''%!s(<nil>)'')), w1)))"
  using assms by (simp add: deployARMTemplate_def Let_def Deploy_def new_server_call_def)

lemma deployARMTemplate_new_server_call:
  assumes "ProvisioningContext instance = mssqlProvisioningContext_ptr pc"
    and "ProvisioningParameters instance = ProvisioningParameters_ptr ppa"
    and "IsNewServer (contexts w pc)"
  shows "deployed (snd (deployARMTemplate X instance plan w)) =
         deployed w @ [new_server_call instance plan pc ppa w]"
  by (simp add: deployARMTemplate_new_server_world [OF assms] Let_def assign_def
      split: sum.split any.split)

text \<open>
  Claim C9: in every new-server provisioning attempt (the new-server flag of the
  context is true) in which the deployment engine succeeds, \<^verbatim>\<open>deployARMTemplate\<close>
  stores the output \<^verbatim>\<open>fullyQualifiedDomainName\<close> of the outcome map into the domain
  name of the context and returns the context; if that output is absent from the
  outcome map or is not a string, it returns an internal failure (and leaves the
  context as it was).
\<close>

theorem deployARMTemplate_new_server:
  assumes "ProvisioningContext instance = mssqlProvisioningContext_ptr pc"
    and "ProvisioningParameters instance = ProvisioningParameters_ptr ppa"
    and "IsNewServer (contexts w pc)"
    and "armDeployer_Deploy X (deployed w)
           (last (deployed (snd (deployARMTemplate X instance plan w)))) = Inr outputs"
  shows "(\<forall>fqdn. outputs ''fullyQualifiedDomainName'' = Some (any_string fqdn) \<longrightarrow>
       fst (deployARMTemplate X instance plan w) = Inr (mssqlProvisioningContext_ptr pc) \<and>
       contexts (snd (deployARMTemplate X instance plan w)) =
         (contexts w)(pc := (contexts w pc)\<lparr>FullyQualifiedDomainName := fqdn\<rparr>)) \<and>
     (outputs ''fullyQualifiedDomainName'' = None \<or>
      (\<exists>v. outputs ''fullyQualifiedDomainName'' = Some v \<and> (\<forall>s. v \<noteq> any_string s)) \<longrightarrow>
       Internal_failure (fst (deployARMTemplate X instance plan w)) \<and>
       contexts (snd (deployARMTemplate X instance plan w)) = contexts w)"
proof -
  have ok: "armDeployer_Deploy X (deployed w) (new_server_call instance plan pc ppa w) =
      Inr outputs"
    using assms(4) by (simp add: deployARMTemplate_new_server_call [OF assms(1-3)])
  show ?thesis
    by (auto simp: deployARMTemplate_new_server_world [OF assms(1-3)] ok Let_def assign_def
        index_any_def split: any.split)
qed

theorem deployARMTemplate_new_server_witness:
  "fst (deployARMTemplate some_collaborators an_instance a_plan
      (resolved_world (a_request '''' ''1.2.3.4'' ''1.2.3.10''))) =
     Inr (mssqlProvisioningContext_ptr 0) \<and>
   FullyQualifiedDomainName (contexts (snd (deployARMTemplate some_collaborators an_instance
      a_plan (resolved_world (a_request '''' ''1.2.3.4'' ''1.2.3.10'')))) 0) =
     ''new.database.windows.net'' \<and>
   Internal_failure (fst (deployARMTemplate
      (some_collaborators\<lparr>armDeployer_Deploy := \<lambda>before call. Inr Map.empty\<rparr>)
      an_instance a_plan (resolved_world (a_request '''' ''1.2.3.4'' ''1.2.3.10''))))"
proof -
  let ?w = "resolved_world (a_request '''' ''1.2.3.4'' ''1.2.3.10'')"
  let ?silent = "some_collaborators\<lparr>armDeployer_Deploy := \<lambda>before call. Inr Map.empty\<rparr>"
  have new: "IsNewServer (contexts ?w 0)"
    by (simp add: resolved_world_new)
  have engine: "armDeployer_Deploy some_collaborators (deployed ?w)
      (last (deployed (snd (deployARMTemplate some_collaborators an_instance a_plan ?w)))) =
      Inr [''fullyQualifiedDomainName'' \<mapsto> any_string ''new.database.windows.net'']"
    by (simp add: some_collaborators_def)
  have silent: "armDeployer_Deploy ?silent (deployed ?w)
      (last (deployed (snd (deployARMTemplate ?silent an_instance a_plan ?w)))) =
      Inr Map.empty"
    by simp
  show ?thesis
    using deployARMTemplate_new_server
        [OF an_instance_simps(1) an_instance_simps(2) new engine]
      deployARMTemplate_new_server
        [OF an_instance_simps(1) an_instance_simps(2) new silent]
    by simp
qed

end
